theory Spec2Isabelle
  imports Main
begin

section \<open>The ring: a bounded double-ended buffer over \<open>std::deque\<close>\<close>

text \<open>
  \<open>template<class T> class Ring : public std::deque<T>\<close> has the inherited deque
  sub-object and one own data member, \<open>size_t _capacity\<close>. The deque is a list, front
  element first. \<open>_capacity\<close> is only stored, copied and compared with
  \<open>deque::size()\<close>; no arithmetic is done on it, so it is a natural number here.
  The mutex and the condition variable hold no data: every public method keeps the mutex
  for its whole body, so calls on one ring are serialised and each is one state transformer.
\<close>

record 'a ring =
  storage :: "'a list"
  capacity :: nat

text \<open>
  What a call does: it returns a value, it is still blocked on the condition variable
  after the waits that were modelled, or it has called \<open>front\<close>, \<open>back\<close>,
  \<open>pop_front\<close> or \<open>pop_back\<close> of an empty \<open>std::deque\<close>, which is outside the
  contract of those members.
\<close>

datatype 'b outcome = Returned 'b | Blocked | Faulted

definition and_then :: "'b outcome \<Rightarrow> ('b \<Rightarrow> 'c outcome) \<Rightarrow> 'c outcome" where
  "and_then m f = (case m of Returned x \<Rightarrow> f x | Blocked \<Rightarrow> Blocked | Faulted \<Rightarrow> Faulted)"

subsection \<open>The members of \<open>std::deque\<close> that the ring calls\<close>

definition deque_front :: "'a list \<Rightarrow> 'a outcome" where
  "deque_front d = (case d of [] \<Rightarrow> Faulted | x # _ \<Rightarrow> Returned x)"

definition deque_back :: "'a list \<Rightarrow> 'a outcome" where
  "deque_back d = (case d of [] \<Rightarrow> Faulted | _ # _ \<Rightarrow> Returned (last d))"

definition deque_pop_front :: "'a list \<Rightarrow> 'a list outcome" where
  "deque_pop_front d = (case d of [] \<Rightarrow> Faulted | _ # t \<Rightarrow> Returned t)"

definition deque_pop_back :: "'a list \<Rightarrow> 'a list outcome" where
  "deque_pop_back d = (case d of [] \<Rightarrow> Faulted | _ # _ \<Rightarrow> Returned (butlast d))"

text \<open>
  \<open>deque::resize(n)\<close> keeps the first \<open>n\<close> elements when the deque is longer and
  appends value-initialised elements (\<open>T()\<close>, the parameter \<open>dflt\<close>) when it is shorter.
\<close>

definition deque_resize :: "'a \<Rightarrow> nat \<Rightarrow> 'a list \<Rightarrow> 'a list" where
  "deque_resize dflt n d =
     (if n < length d then take n d else d @ replicate (n - length d) dflt)"

subsection \<open>Construction and capacity\<close>

text \<open>
  \<open>Ring(size_t capacity = 10000) : _capacity(capacity) {}\<close>. The default is 10000 in
  \<open>src/ring.h\<close> and 100000 in \<open>src/include/ring.h\<close>; nothing below depends on it.
\<close>

definition Ring :: "nat \<Rightarrow> 'a ring" where
  "Ring cap = \<lparr>storage = [], capacity = cap\<rparr>"


text \<open>
  \<open>Ring(std::initializer_list<T> list) : deque(list)\<close> and
  \<open>Ring(I first, I last) : deque(first, last)\<close>, both followed by
  \<open>_capacity = std::distance(...)\<close>. The list or the range is the list of its elements.
\<close>

definition Ring_list :: "'a list \<Rightarrow> 'a ring" where
  "Ring_list xs = \<lparr>storage = xs, capacity = length xs\<rparr>"


definition max_size :: "'a ring \<Rightarrow> nat" where
  "max_size r = capacity r"

text \<open>
  \<open>size()\<close> is inherited from the deque, as is \<open>empty()\<close>, which is
  \<open>storage r = []\<close> below.
\<close>

definition size_ring :: "'a ring \<Rightarrow> nat" where
  "size_ring r = length (storage r)"

text \<open>
  \<open>resize\<close> of \<open>src/ring.h\<close>:
  \<open>if (_capacity > size) deque::resize(size); _capacity = size;\<close>
\<close>

definition resize :: "'a \<Rightarrow> nat \<Rightarrow> 'a ring \<Rightarrow> 'a ring" where
  "resize dflt n r =
     (if capacity r > n
      then \<lparr>storage = deque_resize dflt n (storage r), capacity = n\<rparr>
      else \<lparr>storage = storage r, capacity = n\<rparr>)"

text \<open>
  \<open>resize\<close> of \<open>src/include/ring.h\<close>:
  \<open>_capacity = size; deque::resize(size);\<close>
\<close>

definition resize_include :: "'a \<Rightarrow> nat \<Rightarrow> 'a ring \<Rightarrow> 'a ring" where
  "resize_include dflt n r = \<lparr>storage = deque_resize dflt n (storage r), capacity = n\<rparr>"

text \<open>\<open>shrink_to_fit\<close>: \<open>deque::shrink_to_fit(); _capacity = deque::size();\<close>\<close>

definition shrink_to_fit :: "'a ring \<Rightarrow> 'a ring" where
  "shrink_to_fit r = \<lparr>storage = storage r, capacity = length (storage r)\<rparr>"

text \<open>
  \<open>assign(first, last)\<close>:
  \<open>deque::assign(first, last); if (size > _capacity) _capacity = size;\<close>
\<close>

definition assign :: "'a list \<Rightarrow> 'a ring \<Rightarrow> 'a ring" where
  "assign xs r =
     (if length xs > capacity r
      then \<lparr>storage = xs, capacity = length xs\<rparr>
      else \<lparr>storage = xs, capacity = capacity r\<rparr>)"

subsection \<open>Pushes\<close>

text \<open>
  \<open>push_front\<close> (the \<open>const T&\<close> and the \<open>T&&\<close> overload have the same body; the
  argument is copied in both):
  \<open>deque::push_front(value); if (deque::size() > _capacity) deque::pop_back();\<close>
\<close>

definition push_front :: "'a \<Rightarrow> 'a ring \<Rightarrow> 'a ring outcome" where
  "push_front v r =
     (let d = v # storage r in
      if length d > capacity r
      then and_then (deque_pop_back d) (\<lambda>d'. Returned \<lparr>storage = d', capacity = capacity r\<rparr>)
      else Returned \<lparr>storage = d, capacity = capacity r\<rparr>)"

definition push_back :: "'a \<Rightarrow> 'a ring \<Rightarrow> 'a ring outcome" where
  "push_back v r =
     (let d = storage r @ [v] in
      if length d > capacity r
      then and_then (deque_pop_front d) (\<lambda>d'. Returned \<lparr>storage = d', capacity = capacity r\<rparr>)
      else Returned \<lparr>storage = d, capacity = capacity r\<rparr>)"

text \<open>
  \<open>emplace_front(args...)\<close> and \<open>emplace_back(args...)\<close> build the element in place,
  \<open>T(args...)\<close>; \<open>mk\<close> is that constructor.
\<close>

definition emplace_front :: "('c \<Rightarrow> 'a) \<Rightarrow> 'c \<Rightarrow> 'a ring \<Rightarrow> 'a ring outcome" where
  "emplace_front mk args r =
     (let d = mk args # storage r in
      if length d > capacity r
      then and_then (deque_pop_back d) (\<lambda>d'. Returned \<lparr>storage = d', capacity = capacity r\<rparr>)
      else Returned \<lparr>storage = d, capacity = capacity r\<rparr>)"

definition emplace_back :: "('c \<Rightarrow> 'a) \<Rightarrow> 'c \<Rightarrow> 'a ring \<Rightarrow> 'a ring outcome" where
  "emplace_back mk args r =
     (let d = storage r @ [mk args] in
      if length d > capacity r
      then and_then (deque_pop_front d) (\<lambda>d'. Returned \<lparr>storage = d', capacity = capacity r\<rparr>)
      else Returned \<lparr>storage = d, capacity = capacity r\<rparr>)"

subsection \<open>Pops that do not wait\<close>

text \<open>
  The three front pops end with the same statements,
  \<open>T value = deque::front(); deque::pop_front(); return value;\<close>,
  and the three back pops with
  \<open>T value = deque::back(); deque::pop_back(); return value;\<close>.
\<close>

definition take_front :: "'a ring \<Rightarrow> ('a \<times> 'a ring) outcome" where
  "take_front r =
     and_then (deque_front (storage r)) (\<lambda>v.
     and_then (deque_pop_front (storage r)) (\<lambda>d'.
     Returned (v, \<lparr>storage = d', capacity = capacity r\<rparr>)))"

definition take_back :: "'a ring \<Rightarrow> ('a \<times> 'a ring) outcome" where
  "take_back r =
     and_then (deque_back (storage r)) (\<lambda>v.
     and_then (deque_pop_back (storage r)) (\<lambda>d'.
     Returned (v, \<lparr>storage = d', capacity = capacity r\<rparr>)))"

text \<open>
  \<open>std::optional<T> pop_front()\<close>: \<open>if (deque::empty()) return std::nullopt;\<close>, then
  the common tail. \<open>std::nullopt\<close> is \<open>None\<close>.
\<close>

definition pop_front :: "'a ring \<Rightarrow> ('a option \<times> 'a ring) outcome" where
  "pop_front r =
     (if storage r = [] then Returned (None, r)
      else and_then (take_front r) (\<lambda>(v, r'). Returned (Some v, r')))"

definition pop_back :: "'a ring \<Rightarrow> ('a option \<times> 'a ring) outcome" where
  "pop_back r =
     (if storage r = [] then Returned (None, r)
      else and_then (take_back r) (\<lambda>(v, r'). Returned (Some v, r')))"

subsection \<open>Pops that wait\<close>

text \<open>
  \<open>_cv.wait_for(lock, 300ms, pred)\<close> with \<open>pred = !deque::empty()\<close> tests the predicate
  first and returns true at once when it holds. Otherwise it gives the mutex up for at
  most the interval; other threads call the ring meanwhile (\<open>others\<close>, any function of
  the ring), and the result is the predicate on the ring as the waiter finds it when it
  holds the mutex again. The length of the interval (300ms at the front, 100ms at the
  back) does not enter.
\<close>

definition wait_for :: "('a ring \<Rightarrow> 'a ring) \<Rightarrow> 'a ring \<Rightarrow> bool \<times> 'a ring" where
  "wait_for others r =
     (if storage r \<noteq> [] then (True, r) else (storage (others r) \<noteq> [], others r))"

text \<open>
  \<open>pop_front_wait(const std::atomic_bool& stop)\<close>:
  \<open>for (;;) { if (wait_for(...)) break; else if (!stop) return std::nullopt; }\<close>
  and the common tail. The environment lists, for each turn of the loop, what the other
  threads do during the wait and the value of \<open>stop\<close> read after it. The loop can turn
  for ever; with the listed turns used up the call is \<open>Blocked\<close>, unless the ring is not
  empty, where \<open>wait_for\<close> returns without waiting.
\<close>

fun pop_front_wait_stop ::
  "(('a ring \<Rightarrow> 'a ring) \<times> bool) list \<Rightarrow> 'a ring \<Rightarrow> ('a option \<times> 'a ring) outcome" where
  "pop_front_wait_stop [] r =
     (if storage r \<noteq> [] then and_then (take_front r) (\<lambda>(v, r'). Returned (Some v, r'))
      else Blocked)"
| "pop_front_wait_stop ((others, stop) # env) r =
     (let (woken, r1) = wait_for others r in
      if woken then and_then (take_front r1) (\<lambda>(v, r'). Returned (Some v, r'))
      else if \<not> stop then Returned (None, r1)
      else pop_front_wait_stop env r1)"

fun pop_back_wait_stop ::
  "(('a ring \<Rightarrow> 'a ring) \<times> bool) list \<Rightarrow> 'a ring \<Rightarrow> ('a option \<times> 'a ring) outcome" where
  "pop_back_wait_stop [] r =
     (if storage r \<noteq> [] then and_then (take_back r) (\<lambda>(v, r'). Returned (Some v, r'))
      else Blocked)"
| "pop_back_wait_stop ((others, stop) # env) r =
     (let (woken, r1) = wait_for others r in
      if woken then and_then (take_back r1) (\<lambda>(v, r'). Returned (Some v, r'))
      else if \<not> stop then Returned (None, r1)
      else pop_back_wait_stop env r1)"



subsection \<open>Operations on two rings\<close>

text \<open>
  \<open>swap\<close> and the copy assignment take a second ring by reference and compare the
  addresses, so the rings live in a store, one ring at every address.
\<close>

type_synonym 'a heap = "nat \<Rightarrow> 'a ring"

text \<open>
  \<open>swap(Ring& that)\<close>: \<open>if (this == &that) return; std::deque<T>::swap(that);\<close>.
  The call is the deque's \<open>swap\<close>: it exchanges the deque sub-objects;
  \<open>_capacity\<close> is not named.
\<close>

definition swap :: "nat \<Rightarrow> nat \<Rightarrow> 'a heap \<Rightarrow> 'a heap" where
  "swap this that h =
     (if this = that then h
      else h(this := \<lparr>storage = storage (h that), capacity = capacity (h this)\<rparr>,
             that := \<lparr>storage = storage (h this), capacity = capacity (h that)\<rparr>))"

text \<open>
  \<open>operator=(const Ring& that)\<close>:
  \<open>if (this == &that) return *this; std::deque<T>::operator=(that); return *this;\<close>
\<close>

definition copy_assign :: "nat \<Rightarrow> nat \<Rightarrow> 'a heap \<Rightarrow> 'a heap" where
  "copy_assign this that h =
     (if this = that then h
      else h(this := \<lparr>storage = storage (h that), capacity = capacity (h this)\<rparr>))"

subsection \<open>Sequences of calls on one ring\<close>

text \<open>The calls that do not wait. \<open>Emplace_front v\<close> emplaces the element \<open>v\<close>.\<close>

datatype 'a op =
    Push_front 'a | Push_back 'a | Emplace_front 'a | Emplace_back 'a
  | Pop_front | Pop_back | Resize nat | Shrink_to_fit | Assign "'a list"

fun apply_op :: "'a \<Rightarrow> 'a op \<Rightarrow> 'a ring \<Rightarrow> 'a ring outcome" where
  "apply_op dflt (Push_front v) r = push_front v r"
| "apply_op dflt (Push_back v) r = push_back v r"
| "apply_op dflt (Emplace_front v) r = emplace_front (\<lambda>x. x) v r"
| "apply_op dflt (Emplace_back v) r = emplace_back (\<lambda>x. x) v r"
| "apply_op dflt Pop_front r = and_then (pop_front r) (\<lambda>(v, r'). Returned r')"
| "apply_op dflt Pop_back r = and_then (pop_back r) (\<lambda>(v, r'). Returned r')"
| "apply_op dflt (Resize n) r = Returned (resize dflt n r)"
| "apply_op dflt Shrink_to_fit r = Returned (shrink_to_fit r)"
| "apply_op dflt (Assign xs) r = Returned (assign xs r)"

text \<open>
  What other threads do to the ring while a waiter has given the mutex up: a list of
  calls, run in order up to the first one that does not return. A waiting pop of
  another thread that returns acts on the ring as \<open>Pop_front\<close> or \<open>Pop_back\<close> does.
\<close>

fun run_others :: "'a \<Rightarrow> 'a op list \<Rightarrow> 'a ring \<Rightarrow> 'a ring" where
  "run_others dflt [] r = r"
| "run_others dflt (c # cs) r =
     (case apply_op dflt c r of Returned r' \<Rightarrow> run_others dflt cs r' | Blocked \<Rightarrow> r | Faulted \<Rightarrow> r)"






subsection \<open>Auxiliary notions\<close>

text \<open>The ring that the common tail of a front pop, or of a back pop, leaves.\<close>

definition front_taken :: "'a ring \<Rightarrow> 'a ring" where
  "front_taken r = \<lparr>storage = tl (storage r), capacity = capacity r\<rparr>"

definition back_taken :: "'a ring \<Rightarrow> 'a ring" where
  "back_taken r = \<lparr>storage = butlast (storage r), capacity = capacity r\<rparr>"



section \<open>Basic facts about the operations\<close>

lemma push_front_eq:
  "push_front v r = Returned \<lparr>storage = (if length (storage r) < capacity r then v # storage r
       else butlast (v # storage r)), capacity = capacity r\<rparr>"
  by (simp add: push_front_def Let_def deque_pop_back_def and_then_def)

lemma push_back_eq:
  "push_back v r = Returned \<lparr>storage = (if length (storage r) < capacity r then storage r @ [v]
       else tl (storage r @ [v])), capacity = capacity r\<rparr>"
  by (cases "storage r") (simp_all add: push_back_def Let_def deque_pop_front_def and_then_def)

lemma emplace_front_eq: "emplace_front mk args r = push_front (mk args) r"
  by (simp add: emplace_front_def push_front_def)

lemma emplace_back_eq: "emplace_back mk args r = push_back (mk args) r"
  by (simp add: emplace_back_def push_back_def)

lemma take_front_eq:
  "storage r \<noteq> [] \<Longrightarrow>
   take_front r = Returned (hd (storage r), \<lparr>storage = tl (storage r), capacity = capacity r\<rparr>)"
  by (cases "storage r") (simp_all add: take_front_def deque_front_def deque_pop_front_def and_then_def)

lemma take_back_eq:
  "storage r \<noteq> [] \<Longrightarrow>
   take_back r = Returned (last (storage r), \<lparr>storage = butlast (storage r), capacity = capacity r\<rparr>)"
  by (cases "storage r") (simp_all add: take_back_def deque_back_def deque_pop_back_def and_then_def)

lemma pop_front_eq:
  "pop_front r = Returned (if storage r = [] then (None, r)
     else (Some (hd (storage r)), \<lparr>storage = tl (storage r), capacity = capacity r\<rparr>))"
  by (simp add: pop_front_def take_front_eq and_then_def)

lemma pop_back_eq:
  "pop_back r = Returned (if storage r = [] then (None, r)
     else (Some (last (storage r)), \<lparr>storage = butlast (storage r), capacity = capacity r\<rparr>))"
  by (simp add: pop_back_def take_back_eq and_then_def)

lemma take_front_cases:
  "take_front r = (if storage r = [] then Faulted
     else Returned (hd (storage r), \<lparr>storage = tl (storage r), capacity = capacity r\<rparr>))"
  by (cases "storage r") (simp_all add: take_front_def deque_front_def deque_pop_front_def and_then_def)

lemma take_back_cases:
  "take_back r = (if storage r = [] then Faulted
     else Returned (last (storage r), \<lparr>storage = butlast (storage r), capacity = capacity r\<rparr>))"
  by (cases "storage r") (simp_all add: take_back_def deque_back_def deque_pop_back_def and_then_def)

lemma pop_front_wait_stop_Nil:
  "pop_front_wait_stop [] r =
     (if storage r \<noteq> [] then Returned (Some (hd (storage r)), front_taken r) else Blocked)"
  by (simp add: take_front_cases and_then_def front_taken_def)

lemma pop_front_wait_stop_Cons:
  "pop_front_wait_stop ((f, s) # env) r =
     (if storage r \<noteq> [] then Returned (Some (hd (storage r)), front_taken r)
      else if storage (f r) \<noteq> [] then Returned (Some (hd (storage (f r))), front_taken (f r))
      else if \<not> s then Returned (None, f r)
      else pop_front_wait_stop env (f r))"
  by (simp add: wait_for_def take_front_cases and_then_def front_taken_def)

lemma pop_back_wait_stop_Nil:
  "pop_back_wait_stop [] r =
     (if storage r \<noteq> [] then Returned (Some (last (storage r)), back_taken r) else Blocked)"
  by (simp add: take_back_cases and_then_def back_taken_def)

lemma pop_back_wait_stop_Cons:
  "pop_back_wait_stop ((f, s) # env) r =
     (if storage r \<noteq> [] then Returned (Some (last (storage r)), back_taken r)
      else if storage (f r) \<noteq> [] then Returned (Some (last (storage (f r))), back_taken (f r))
      else if \<not> s then Returned (None, f r)
      else pop_back_wait_stop env (f r))"
  by (simp add: wait_for_def take_back_cases and_then_def back_taken_def)













lemma pop_front_wait_stop_no_fault: "pop_front_wait_stop env r \<noteq> Faulted"
proof (induction env arbitrary: r)
  case Nil
  show ?case by (simp add: pop_front_wait_stop_Nil del: pop_front_wait_stop.simps)
next
  case (Cons e env)
  obtain f s where e: "e = (f, s)" by (cases e)
  show ?case unfolding e pop_front_wait_stop_Cons using Cons.IH[of "f r"] by simp
qed

lemma pop_back_wait_stop_no_fault: "pop_back_wait_stop env r \<noteq> Faulted"
proof (induction env arbitrary: r)
  case Nil
  show ?case by (simp add: pop_back_wait_stop_Nil del: pop_back_wait_stop.simps)
next
  case (Cons e env)
  obtain f s where e: "e = (f, s)" by (cases e)
  show ?case unfolding e pop_back_wait_stop_Cons using Cons.IH[of "f r"] by simp
qed












lemma short_list_cases:
  "length xs \<le> 3 \<Longrightarrow> xs = [] \<or> (\<exists>a. xs = [a]) \<or> (\<exists>a b. xs = [a, b]) \<or> (\<exists>a b c. xs = [a, b, c])"
  by (cases xs; cases "tl xs"; cases "tl (tl xs)"; cases "tl (tl (tl xs))") auto

lemma four_push_back:
  assumes "capacity r = 3" and "length (storage r) \<le> 3"
  shows "and_then (and_then (and_then (push_back v1 r) (push_back v2)) (push_back v3)) (push_back v4)
         = Returned \<lparr>storage = [v2, v3, v4], capacity = 3\<rparr>"
  using short_list_cases[OF assms(2)] assms(1)
  by (auto simp: push_back_eq and_then_def)

lemma four_push_front:
  assumes "capacity r = 3" and "length (storage r) \<le> 3"
  shows "and_then (and_then (and_then (push_front v1 r) (push_front v2)) (push_front v3)) (push_front v4)
         = Returned \<lparr>storage = [v4, v3, v2], capacity = 3\<rparr>"
  using short_list_cases[OF assms(2)] assms(1)
  by (auto simp: push_front_eq and_then_def)

lemma resize_behaviour:
  "max_size (resize dflt n r) = n \<and>
   (max_size r \<le> n \<longrightarrow> storage (resize dflt n r) = storage r) \<and>
   (n < max_size r \<longrightarrow> storage (resize dflt n r) = deque_resize dflt n (storage r)) \<and>
   (n < size_ring r \<longrightarrow> deque_resize dflt n (storage r) = take n (storage r)) \<and>
   (size_ring r \<le> n \<longrightarrow>
      deque_resize dflt n (storage r) = storage r @ replicate (n - size_ring r) dflt)"
  by (simp add: resize_def deque_resize_def max_size_def size_ring_def)

lemma swap_elements:
  "storage (swap a b h a) = storage (h b) \<and> storage (swap a b h b) = storage (h a) \<and>
   swap a a h = h"
  by (simp add: swap_def)

section \<open>Construction\<close>


section \<open>The capacity bound\<close>




section \<open>Pushes and eviction\<close>

text \<open>
  C2. \<open>push_front\<close>, \<open>push_back\<close>, \<open>emplace_front\<close> and \<open>emplace_back\<close> put the new
  element at the named end; when the element count then exceeds the capacity, one element
  is removed at the opposite end (the back for a front push, the front for a back push),
  and nothing else changes. An emplace acts as the push of the element it builds. On a
  \<open>Ring(3)\<close>, and on every ring of capacity 3 that holds at most 3 elements, pushing
  1, 2, 3, 4 at the back leaves \<open>[2, 3, 4]\<close> and pushing them at the front leaves
  \<open>[4, 3, 2]\<close>.
\<close>

theorem C2_push_evicts_opposite_end:
  "push_front v r =
     Returned \<lparr>storage = (if length (v # storage r) > capacity r then butlast (v # storage r)
                          else v # storage r),
               capacity = capacity r\<rparr> \<and>
   push_back v r =
     Returned \<lparr>storage = (if length (storage r @ [v]) > capacity r then tl (storage r @ [v])
                          else storage r @ [v]),
               capacity = capacity r\<rparr> \<and>
   emplace_front mk args r = push_front (mk args) r \<and>
   emplace_back mk args r = push_back (mk args) r \<and>
   and_then (and_then (and_then (push_back 1 (Ring 3)) (push_back 2)) (push_back 3)) (push_back (4::int))
     = Returned \<lparr>storage = [2, 3, 4], capacity = 3\<rparr> \<and>
   and_then (and_then (and_then (push_front 1 (Ring 3)) (push_front 2)) (push_front 3)) (push_front (4::int))
     = Returned \<lparr>storage = [4, 3, 2], capacity = 3\<rparr> \<and>
   (max_size q = 3 \<and> size_ring q \<le> max_size q \<longrightarrow>
      and_then (and_then (and_then (push_back 1 q) (push_back 2)) (push_back 3)) (push_back (4::int))
        = Returned \<lparr>storage = [2, 3, 4], capacity = 3\<rparr> \<and>
      and_then (and_then (and_then (push_front 1 q) (push_front 2)) (push_front 3)) (push_front (4::int))
        = Returned \<lparr>storage = [4, 3, 2], capacity = 3\<rparr>)"
proof -
  have "push_front v r =
     Returned \<lparr>storage = (if length (v # storage r) > capacity r then butlast (v # storage r)
                          else v # storage r), capacity = capacity r\<rparr>"
    by (simp add: push_front_eq)
  moreover have "push_back v r =
     Returned \<lparr>storage = (if length (storage r @ [v]) > capacity r then tl (storage r @ [v])
                          else storage r @ [v]), capacity = capacity r\<rparr>"
    by (simp add: push_back_eq)
  moreover have
    "and_then (and_then (and_then (push_back 1 (Ring 3)) (push_back 2)) (push_back 3)) (push_back (4::int))
       = Returned \<lparr>storage = [2, 3, 4], capacity = 3\<rparr>"
    by (rule four_push_back) (simp_all add: Ring_def)
  moreover have
    "and_then (and_then (and_then (push_front 1 (Ring 3)) (push_front 2)) (push_front 3)) (push_front (4::int))
       = Returned \<lparr>storage = [4, 3, 2], capacity = 3\<rparr>"
    by (rule four_push_front) (simp_all add: Ring_def)
  moreover have "max_size q = 3 \<and> size_ring q \<le> max_size q \<longrightarrow>
      and_then (and_then (and_then (push_back 1 q) (push_back 2)) (push_back 3)) (push_back (4::int))
        = Returned \<lparr>storage = [2, 3, 4], capacity = 3\<rparr> \<and>
      and_then (and_then (and_then (push_front 1 q) (push_front 2)) (push_front 3)) (push_front (4::int))
        = Returned \<lparr>storage = [4, 3, 2], capacity = 3\<rparr>"
    by (simp add: max_size_def size_ring_def four_push_back four_push_front)
  ultimately show ?thesis
    by (simp only: emplace_front_eq emplace_back_eq simp_thms)
qed

text \<open>
  Instances: the ring built from \<open>{7, 8, 9}\<close>, and pushes on rings of capacity 2 that
  hold two elements and one element.
\<close>

theorem C2_push_evicts_opposite_end_witness:
  "max_size (Ring_list [7, 8, 9::int]) = 3 \<and>
   size_ring (Ring_list [7, 8, 9::int]) \<le> max_size (Ring_list [7, 8, 9::int]) \<and>
   and_then (and_then (and_then (push_back 1 (Ring_list [7, 8, 9])) (push_back 2)) (push_back 3))
     (push_back (4::int)) = Returned \<lparr>storage = [2, 3, 4], capacity = 3\<rparr> \<and>
   and_then (and_then (and_then (push_front 1 (Ring_list [7, 8, 9])) (push_front 2)) (push_front 3))
     (push_front (4::int)) = Returned \<lparr>storage = [4, 3, 2], capacity = 3\<rparr> \<and>
   push_back (9::int) \<lparr>storage = [7, 8], capacity = 2\<rparr> = Returned \<lparr>storage = [8, 9], capacity = 2\<rparr> \<and>
   push_front (9::int) \<lparr>storage = [7, 8], capacity = 2\<rparr> = Returned \<lparr>storage = [9, 7], capacity = 2\<rparr> \<and>
   push_back (9::int) \<lparr>storage = [7], capacity = 2\<rparr> = Returned \<lparr>storage = [7, 9], capacity = 2\<rparr> \<and>
   push_front (9::int) \<lparr>storage = [7], capacity = 2\<rparr> = Returned \<lparr>storage = [9, 7], capacity = 2\<rparr>"
  using
    C2_push_evicts_opposite_end[of "9::int" "\<lparr>storage = [7, 8], capacity = 2\<rparr>"
      "\<lambda>x::int. x" "9::int" "Ring_list [7, 8, 9]"]
    C2_push_evicts_opposite_end[of "9::int" "\<lparr>storage = [7], capacity = 2\<rparr>"
      "\<lambda>x::int. x" "9::int" "Ring_list [7, 8, 9]"]
  by (simp add: Ring_list_def max_size_def size_ring_def)

text \<open>
  C10, as the claim states it, fails on a ring of capacity 0 that is not empty. Ring \<open>a\<close>
  at address 0 is built by \<open>Ring(0)\<close>, ring \<open>b\<close> at address 1 from \<open>{1, 2}\<close>. After
  \<open>a = b\<close>, \<open>a.max_size()\<close> is 0 and \<open>a.push_back(3)\<close> leaves \<open>[2, 3]\<close> in \<open>a\<close>.
\<close>

theorem C10_counterexample:
  "max_size (copy_assign 0 1 ((\<lambda>_. Ring 0)(1 := Ring_list [1::nat, 2])) 0) = 0 \<and>
   push_back 3 (copy_assign 0 1 ((\<lambda>_. Ring 0)(1 := Ring_list [1::nat, 2])) 0)
     = Returned \<lparr>storage = [2, 3], capacity = 0\<rparr>"
  by (simp add: copy_assign_def Ring_def Ring_list_def max_size_def push_back_eq)

text \<open>
  C10 (amended). On every empty ring whose capacity is 0, each of \<open>push_front\<close>,
  \<open>push_back\<close>, \<open>emplace_front\<close> and \<open>emplace_back\<close> returns and leaves the ring as
  it was, empty: the inserted element is the only one and the overflow check removes it.
\<close>

theorem C10_push_on_empty_zero_capacity:
  "max_size r = 0 \<Longrightarrow> size_ring r = 0 \<Longrightarrow>
   push_front v r = Returned r \<and> push_back v r = Returned r \<and>
   emplace_front mk args r = Returned r \<and> emplace_back mk args r = Returned r"
  by (simp add: max_size_def size_ring_def push_front_eq push_back_eq emplace_front_eq emplace_back_eq)

text \<open>The instance \<open>Ring(0)\<close>.\<close>

theorem C10_push_on_empty_zero_capacity_witness:
  "max_size (Ring 0 :: nat ring) = 0 \<and> size_ring (Ring 0 :: nat ring) = 0 \<and>
   push_front 5 (Ring 0) = Returned (Ring 0 :: nat ring) \<and>
   push_back 5 (Ring 0) = Returned (Ring 0 :: nat ring) \<and>
   emplace_front Suc 4 (Ring 0) = Returned (Ring 0 :: nat ring) \<and>
   emplace_back Suc 4 (Ring 0) = Returned (Ring 0 :: nat ring) \<and>
   size_ring (Ring 0 :: nat ring) = 0"
proof -
  have m: "max_size (Ring 0 :: nat ring) = 0" by (simp add: Ring_def max_size_def)
  have s: "size_ring (Ring 0 :: nat ring) = 0" by (simp add: Ring_def size_ring_def)
  show ?thesis
    using m s C10_push_on_empty_zero_capacity[OF m s, of 5 Suc 4] by simp
qed

section \<open>Resize\<close>

text \<open>
  C3. The claim is that \<open>resize(n)\<close> leaves the stored elements unchanged whenever \<open>n\<close>
  is at least the element count, and never inserts a value-initialised element. The
  code tests \<open>_capacity > size\<close>, not the element count: \<open>Ring<int>(5)\<close> after
  \<open>push_back(1)\<close> and \<open>push_back(2)\<close> holds \<open>[1, 2]\<close>, and \<open>resize(3)\<close> makes it
  \<open>[1, 2, 0]\<close>. The variant in \<open>src/include/ring.h\<close> calls \<open>deque::resize\<close> always:
  \<open>resize(5)\<close> on the ring built from \<open>{1, 2}\<close> gives \<open>[1, 2, 0, 0, 0]\<close>. The same
  test also skips the truncation when the ring holds more than its capacity: the ring
  built by \<open>Ring(1)\<close> and then assigned the ring built from \<open>{1, 2, 3}\<close> keeps all
  three elements under \<open>resize(2)\<close>.
\<close>

theorem C3_resize_pads_below_capacity:
  "push_back 1 (Ring 5) = Returned \<lparr>storage = [1::int], capacity = 5\<rparr> \<and>
   push_back 2 \<lparr>storage = [1::int], capacity = 5\<rparr> = Returned \<lparr>storage = [1, 2], capacity = 5\<rparr> \<and>
   resize 0 3 \<lparr>storage = [1, 2::int], capacity = 5\<rparr> = \<lparr>storage = [1, 2, 0], capacity = 3\<rparr> \<and>
   resize_include 0 5 (Ring_list [1, 2::int]) = \<lparr>storage = [1, 2, 0, 0, 0], capacity = 5\<rparr> \<and>
   resize 0 2 (copy_assign 0 1 ((\<lambda>_. Ring 1)(1 := Ring_list [1, 2, 3::int])) 0)
     = \<lparr>storage = [1, 2, 3], capacity = 2\<rparr>"
  by (simp add: push_back_eq Ring_def Ring_list_def resize_def resize_include_def deque_resize_def
      copy_assign_def numeral_3_eq_3)

section \<open>Pops\<close>

text \<open>
  C6. \<open>pop_front\<close> and \<open>pop_back\<close> always return, without a wait and without calling
  a deque member on an empty deque. On an empty ring the result is \<open>std::nullopt\<close> and
  the ring is unchanged; otherwise the result is the element at the named end, and that
  element is removed.
\<close>

theorem C6_pop_without_wait:
  "pop_front r = Returned (if storage r = [] then (None, r)
       else (Some (hd (storage r)), \<lparr>storage = tl (storage r), capacity = capacity r\<rparr>)) \<and>
   pop_back r = Returned (if storage r = [] then (None, r)
       else (Some (last (storage r)), \<lparr>storage = butlast (storage r), capacity = capacity r\<rparr>)) \<and>
   pop_front \<lparr>storage = [], capacity = n\<rparr> = Returned (None, \<lparr>storage = [], capacity = n\<rparr>) \<and>
   pop_back \<lparr>storage = [], capacity = n\<rparr> = Returned (None, \<lparr>storage = [], capacity = n\<rparr>) \<and>
   pop_front \<lparr>storage = x # xs, capacity = n\<rparr> = Returned (Some x, \<lparr>storage = xs, capacity = n\<rparr>) \<and>
   pop_back \<lparr>storage = xs @ [x], capacity = n\<rparr> = Returned (Some x, \<lparr>storage = xs, capacity = n\<rparr>) \<and>
   pop_front r \<noteq> Faulted \<and> pop_front r \<noteq> Blocked \<and>
   pop_back r \<noteq> Faulted \<and> pop_back r \<noteq> Blocked"
  by (simp add: pop_front_eq pop_back_eq)

text \<open>
  C4. \<open>pop_front_wait(stop)\<close> and \<open>pop_back_wait(stop)\<close>: when the ring is not empty
  on entry, or is not empty when the waiter holds the mutex again after a poll interval,
  the element at the named end is removed and returned; when the interval passes with
  the ring still empty and \<open>stop\<close> reads false, the call returns \<open>std::nullopt\<close>; when
  \<open>stop\<close> reads true it goes on with the next interval. No turn of the loop calls a
  deque member on an empty deque.
\<close>

theorem C4_wait_with_flag:
  "(storage r \<noteq> [] \<longrightarrow>
      pop_front_wait_stop env r
        = Returned (Some (hd (storage r)), \<lparr>storage = tl (storage r), capacity = capacity r\<rparr>) \<and>
      pop_back_wait_stop env r
        = Returned (Some (last (storage r)), \<lparr>storage = butlast (storage r), capacity = capacity r\<rparr>)) \<and>
   (storage r = [] \<and> storage (others r) \<noteq> [] \<longrightarrow>
      pop_front_wait_stop ((others, stop) # env) r
        = Returned (Some (hd (storage (others r))),
                    \<lparr>storage = tl (storage (others r)), capacity = capacity (others r)\<rparr>) \<and>
      pop_back_wait_stop ((others, stop) # env) r
        = Returned (Some (last (storage (others r))),
                    \<lparr>storage = butlast (storage (others r)), capacity = capacity (others r)\<rparr>)) \<and>
   (storage r = [] \<and> storage (others r) = [] \<and> \<not> stop \<longrightarrow>
      pop_front_wait_stop ((others, stop) # env) r = Returned (None, others r) \<and>
      pop_back_wait_stop ((others, stop) # env) r = Returned (None, others r)) \<and>
   (storage r = [] \<and> storage (others r) = [] \<and> stop \<longrightarrow>
      pop_front_wait_stop ((others, stop) # env) r = pop_front_wait_stop env (others r) \<and>
      pop_back_wait_stop ((others, stop) # env) r = pop_back_wait_stop env (others r)) \<and>
   pop_front_wait_stop env r \<noteq> Faulted \<and>
   pop_back_wait_stop env r \<noteq> Faulted"
proof -
  have 1: "storage r \<noteq> [] \<longrightarrow>
      pop_front_wait_stop env r
        = Returned (Some (hd (storage r)), \<lparr>storage = tl (storage r), capacity = capacity r\<rparr>) \<and>
      pop_back_wait_stop env r
        = Returned (Some (last (storage r)), \<lparr>storage = butlast (storage r), capacity = capacity r\<rparr>)"
  proof (cases env)
    case Nil
    then show ?thesis
      by (simp add: pop_front_wait_stop_Nil pop_back_wait_stop_Nil front_taken_def back_taken_def
          del: pop_front_wait_stop.simps pop_back_wait_stop.simps)
  next
    case (Cons e es)
    obtain f s where "e = (f, s)" by (cases e)
    with Cons show ?thesis
      by (simp add: pop_front_wait_stop_Cons pop_back_wait_stop_Cons front_taken_def back_taken_def
          del: pop_front_wait_stop.simps pop_back_wait_stop.simps)
  qed
  have 2: "storage r = [] \<and> storage (others r) \<noteq> [] \<longrightarrow>
      pop_front_wait_stop ((others, stop) # env) r
        = Returned (Some (hd (storage (others r))),
                    \<lparr>storage = tl (storage (others r)), capacity = capacity (others r)\<rparr>) \<and>
      pop_back_wait_stop ((others, stop) # env) r
        = Returned (Some (last (storage (others r))),
                    \<lparr>storage = butlast (storage (others r)), capacity = capacity (others r)\<rparr>)"
    by (simp add: pop_front_wait_stop_Cons pop_back_wait_stop_Cons front_taken_def back_taken_def
        del: pop_front_wait_stop.simps pop_back_wait_stop.simps)
  have 3: "storage r = [] \<and> storage (others r) = [] \<and> \<not> stop \<longrightarrow>
      pop_front_wait_stop ((others, stop) # env) r = Returned (None, others r) \<and>
      pop_back_wait_stop ((others, stop) # env) r = Returned (None, others r)"
    by (simp add: pop_front_wait_stop_Cons pop_back_wait_stop_Cons
        del: pop_front_wait_stop.simps pop_back_wait_stop.simps)
  have 4: "storage r = [] \<and> storage (others r) = [] \<and> stop \<longrightarrow>
      pop_front_wait_stop ((others, stop) # env) r = pop_front_wait_stop env (others r) \<and>
      pop_back_wait_stop ((others, stop) # env) r = pop_back_wait_stop env (others r)"
    by (simp add: pop_front_wait_stop_Cons pop_back_wait_stop_Cons
        del: pop_front_wait_stop.simps pop_back_wait_stop.simps)
  from 1 2 3 4 pop_front_wait_stop_no_fault[of env r] pop_back_wait_stop_no_fault[of env r]
  show ?thesis by (intro conjI)
qed

text \<open>
  Instances: a ring that holds \<open>[5, 6]\<close>; an empty ring into which another thread pushes
  7 and 8 during the wait; an empty ring that stays empty with the flag false; and an
  empty ring that stays empty with the flag true for one interval and receives 7 in the
  next.
\<close>

theorem C4_wait_with_flag_witness:
  "storage \<lparr>storage = [5, 6::nat], capacity = 2\<rparr> \<noteq> [] \<and>
   pop_front_wait_stop [] \<lparr>storage = [5, 6::nat], capacity = 2\<rparr>
     = Returned (Some 5, \<lparr>storage = [6], capacity = 2\<rparr>) \<and>
   pop_back_wait_stop [] \<lparr>storage = [5, 6::nat], capacity = 2\<rparr>
     = Returned (Some 6, \<lparr>storage = [5], capacity = 2\<rparr>) \<and>
   storage (Ring 2 :: nat ring) = [] \<and>
   storage (run_others 0 [Push_back 7, Push_back 8] (Ring 2 :: nat ring)) \<noteq> [] \<and>
   pop_front_wait_stop [(run_others 0 [Push_back 7, Push_back 8], True)] (Ring 2 :: nat ring)
     = Returned (Some 7, \<lparr>storage = [8], capacity = 2\<rparr>) \<and>
   pop_back_wait_stop [(run_others 0 [Push_back 7, Push_back 8], True)] (Ring 2 :: nat ring)
     = Returned (Some 8, \<lparr>storage = [7], capacity = 2\<rparr>) \<and>
   storage (run_others 0 [] (Ring 2 :: nat ring)) = [] \<and>
   pop_front_wait_stop [(run_others 0 [], False)] (Ring 2 :: nat ring)
     = Returned (None, \<lparr>storage = [], capacity = 2\<rparr>) \<and>
   pop_back_wait_stop [(run_others 0 [], False)] (Ring 2 :: nat ring)
     = Returned (None, \<lparr>storage = [], capacity = 2\<rparr>) \<and>
   pop_front_wait_stop [(run_others 0 [], True), (run_others 0 [Push_back 7], False)] (Ring 2 :: nat ring)
     = Returned (Some 7, \<lparr>storage = [], capacity = 2\<rparr>) \<and>
   pop_back_wait_stop [(run_others 0 [], True)] (Ring 2 :: nat ring) = Blocked"
  using
    C4_wait_with_flag[where r = "\<lparr>storage = [5, 6::nat], capacity = 2\<rparr>" and env = "[]"
      and others = "run_others 0 []" and stop = True]
    C4_wait_with_flag[where r = "Ring 2 :: nat ring" and env = "[]"
      and others = "run_others 0 [Push_back 7, Push_back 8]" and stop = True]
    C4_wait_with_flag[where r = "Ring 2 :: nat ring" and env = "[]"
      and others = "run_others 0 []" and stop = False]
    C4_wait_with_flag[where r = "Ring 2 :: nat ring" and env = "[(run_others 0 [Push_back 7], False)]"
      and others = "run_others 0 []" and stop = True]
    C4_wait_with_flag[where r = "Ring 2 :: nat ring" and env = "[]"
      and others = "run_others 0 [Push_back 7]" and stop = False]
  by (simp add: Ring_def push_back_eq pop_front_wait_stop_Nil pop_back_wait_stop_Nil
      pop_back_wait_stop_Cons del: pop_front_wait_stop.simps pop_back_wait_stop.simps)

section \<open>Swap, copy assignment and assign\<close>

text \<open>
  C5. The claim is that \<open>a.swap(b)\<close> exchanges the whole state, stored elements and
  capacity, and that \<open>a.swap(a)\<close> changes nothing. The code calls the \<open>swap\<close> of the
  deque only. With ring \<open>a\<close> at address 0 built from \<open>{1, 2}\<close> and ring \<open>b\<close> at
  address 1 built from \<open>{3, 4, 5}\<close>, \<open>a.swap(b)\<close> exchanges the elements, but
  \<open>a.max_size()\<close> stays 2 where \<open>b.max_size()\<close> was 3, \<open>b.max_size()\<close> stays 3 where
  \<open>a.max_size()\<close> was 2, and \<open>a\<close> is left with three elements over a capacity of 2.
\<close>

theorem C5_swap_misses_capacity:
  "storage (swap 0 1 ((\<lambda>_. Ring 0)(0 := Ring_list [1::nat, 2], 1 := Ring_list [3, 4, 5])) 0) = [3, 4, 5] \<and>
   storage (swap 0 1 ((\<lambda>_. Ring 0)(0 := Ring_list [1::nat, 2], 1 := Ring_list [3, 4, 5])) 1) = [1, 2] \<and>
   max_size (((\<lambda>_. Ring 0)(0 := Ring_list [1::nat, 2], 1 := Ring_list [3, 4, 5])) (0::nat)) = 2 \<and>
   max_size (((\<lambda>_. Ring 0)(0 := Ring_list [1::nat, 2], 1 := Ring_list [3, 4, 5])) (1::nat)) = 3 \<and>
   max_size (swap 0 1 ((\<lambda>_. Ring 0)(0 := Ring_list [1::nat, 2], 1 := Ring_list [3, 4, 5])) 0) = 2 \<and>
   max_size (swap 0 1 ((\<lambda>_. Ring 0)(0 := Ring_list [1::nat, 2], 1 := Ring_list [3, 4, 5])) 1) = 3 \<and>
   \<not> size_ring (swap 0 1 ((\<lambda>_. Ring 0)(0 := Ring_list [1::nat, 2], 1 := Ring_list [3, 4, 5])) 0)
       \<le> max_size (swap 0 1 ((\<lambda>_. Ring 0)(0 := Ring_list [1::nat, 2], 1 := Ring_list [3, 4, 5])) 0) \<and>
   swap 0 0 ((\<lambda>_. Ring 0)(0 := Ring_list [1::nat, 2], 1 := Ring_list [3, 4, 5]))
     = (\<lambda>_. Ring 0)(0 := Ring_list [1::nat, 2], 1 := Ring_list [3, 4, 5])"
  by (simp add: swap_def Ring_list_def max_size_def size_ring_def)

text \<open>
  C7. After \<open>a = b\<close>, \<open>a\<close> holds the elements of \<open>b\<close> and \<open>a.max_size()\<close> is what it was
  before; \<open>b\<close> is unchanged, and \<open>a = a\<close> changes nothing.
\<close>

theorem C7_copy_assign_keeps_capacity:
  "storage (copy_assign a b h a) = storage (h b) \<and>
   max_size (copy_assign a b h a) = max_size (h a) \<and>
   copy_assign a b h b = h b \<and>
   copy_assign a a h = h"
  by (simp add: copy_assign_def max_size_def)

text \<open>
  C8. \<open>assign(first, last)\<close> replaces the contents by the elements of the range, in
  order; the capacity becomes the length of the range when that is larger than the
  capacity, and is unchanged otherwise.
\<close>

theorem C8_assign_replaces_and_expands:
  "storage (assign xs r) = xs \<and>
   max_size (assign xs r) = (if length xs > max_size r then length xs else max_size r)"
  by (simp add: assign_def max_size_def)

end
